theory Spec2Isabelle
  imports Complex_Main "HOL-Library.AList" "HOL-Library.Log_Nat" "HOL-Library.Word"
begin

section \<open>Shared conventions\<close>

text \<open>
  The repository holds two scripts. \<^verbatim>\<open>beacon_detector.py\<close> is the calibrating perimeter
  monitor (zones, thresholds, the \<^verbatim>\<open>eventos\<close> table); \<^verbatim>\<open>beacon2.py\<close> is the terminal
  scanner with the trend display. Constants taken from \<^verbatim>\<open>beacon2.py\<close> carry the suffix
  \<open>2\<close> of that file's name, those from \<^verbatim>\<open>beacon_detector.py\<close> keep the source's names.

  \<^item> A Python \<^verbatim>\<open>dict\<close> keeps insertion order, so the registry of beacons is an association
    list: \<open>map_of\<close> reads a key, \<open>AList.update\<close> stores one (a new key goes to the end),
    a deletion filters the list.
  \<^item> A Python number is an \<^verbatim>\<open>int\<close> or a double, and each is the real number it denotes.
    Comparisons of such numbers are exact. A quotient or a difference that Python computes
    in doubles is the exact result rounded to the nearest double (\<open>fl\<close> below).
    Readings are the integers the scanner delivers, clock readings are reals.
  \<^item> Each callback and each pass of a polling loop is one atomic function on the state;
    the clock value is a parameter.
  \<^item> The Flet page, the map drawing, the on-screen log and the terminal output are left
    out, except for the \<^verbatim>\<open>disabled\<close> flag of the calibration button, which decides
    whether a click reaches the handler.
  \<^item> The PostgreSQL server is outside the program. The state records the calls of
    \<^verbatim>\<open>log_zone_change_event\<close>, the rows of the table \<^verbatim>\<open>eventos\<close>, and which inserts the
    server would accept at the moment.
  \<^item> An exception that would leave a loop is a value \<open>Inl e\<close>.
\<close>

type_synonym byte = "8 word"

datatype error = ValueError | KeyError

record advertisement =
  address :: string
  device_name :: "string option"
  manufacturer_data :: "nat \<rightharpoonup> byte list"
  rssi :: int

text \<open>\<^verbatim>\<open>deque(maxlen=n).append(x)\<close>: the new item goes to the right and, when the length
  then exceeds \<open>n\<close>, the leftmost item is dropped.\<close>

definition deque_append :: "nat \<Rightarrow> 'a list \<Rightarrow> 'a \<Rightarrow> 'a list" where
  "deque_append maxlen q x =
     (let q' = q @ [x] in if length q' > maxlen then tl q' else q')"

subsection \<open>Double arithmetic\<close>

text \<open>Rounding to the nearest integer, a tie going to the even one.\<close>

definition round_half_even :: "real \<Rightarrow> int" where
  "round_half_even x =
     (let n = \<lfloor>x\<rfloor>; r = x - of_int n
      in if r < 1 / 2 then n else if 1 / 2 < r then n + 1 else if even n then n else n + 1)"

text \<open>The exponent \<open>e\<close> of a number \<open>x \<noteq> 0\<close>, with \<open>2\<^sup>e \<le> |x| < 2\<^sup>e\<^sup>+\<^sup>1\<close>; \<open>floorlog 2 n\<close> is
  the number of binary digits of \<open>n\<close>.\<close>

definition binade :: "real \<Rightarrow> int" where
  "binade x =
     (if 1 \<le> \<bar>x\<bar> then int (floorlog 2 (nat \<lfloor>\<bar>x\<bar>\<rfloor>)) - 1
      else - int (floorlog 2 (nat (\<lceil>1 / \<bar>x\<bar>\<rceil> - 1))))"

text \<open>\<open>fl x\<close> is the double nearest to \<open>x\<close>: 53 significant binary digits, ties to even,
  as IEEE 754 binary64 rounds. The exponent is not limited; the numbers of this program,
  means and differences of signal strengths, are far from the limits of the format.\<close>

definition fl :: "real \<Rightarrow> real" where
  "fl x = (if x = 0 then 0
           else let u = 2 powi (binade x - 52) in of_int (round_half_even (x / u)) * u)"

text \<open>The subtraction \<^verbatim>\<open>x - y\<close> of Python. Where Python subtracts two \<^verbatim>\<open>int\<close>s, or keeps
  an integer mean as an \<^verbatim>\<open>int\<close>, the result is exact; it is its own rounding as long as
  its magnitude is below \<open>2\<^sup>5\<^sup>3\<close>.\<close>

definition py_sub :: "real \<Rightarrow> real \<Rightarrow> real" where
  "py_sub x y = fl (x - y)"

text \<open>\<^verbatim>\<open>statistics.mean(readings)\<close> and \<^verbatim>\<open>sum(readings) / len(readings)\<close>: the exact quotient,
  correctly rounded. Both call sites guard against the empty window.\<close>

definition mean :: "int list \<Rightarrow> real" where
  "mean xs = fl (of_int (sum_list xs) / of_nat (length xs))"

section \<open>beacon\_detector.py\<close>

datatype status = NUEVO | CALIBRANDO | ZONA_1 | ZONA_2 | ZONA_3 | FUERA

datatype mode = IDLE | CALIBRATING | MONITORING

record beacon =
  uuid :: "byte list"
  name :: string
  readings :: "int list"
  avg_rssi :: "real option"
  home_rssi :: "real option"
  status :: status
  last_seen :: "real option"

text \<open>A call of \<^verbatim>\<open>log_zone_change_event\<close>, and a row of the table when the call succeeds:
  the address, the old zone and the new one.\<close>

type_synonym zone_change = "string \<times> status \<times> status"

record app_state =
  mode :: mode
  calibration_end_time :: real
  detected_beacons :: "(string \<times> beacon) list"
  perimeter_rssi_levels :: "real list"
  calibrate_button_disabled :: bool
  sink_calls :: "zone_change list"
  eventos :: "zone_change list"
  db_accepts :: "zone_change \<Rightarrow> bool"

definition BEACON_TIMEOUT :: real where
  "BEACON_TIMEOUT = 15"

definition RSSI_SAMPLES_COUNT :: nat where
  "RSSI_SAMPLES_COUNT = 10"

definition CALIBRATION_DURATION :: real where
  "CALIBRATION_DURATION = 10"

definition APP_STATE :: app_state where
  "APP_STATE = \<lparr>mode = IDLE, calibration_end_time = 0, detected_beacons = [],
     perimeter_rssi_levels = [], calibrate_button_disabled = False,
     sink_calls = [], eventos = [], db_accepts = (\<lambda>row. True)\<rparr>"

text \<open>Lines 38-53. The connection and the insert succeed or raise; an exception is caught
  and logged, and then the table is left as it was.\<close>

definition log_zone_change_event ::
  "(zone_change \<Rightarrow> bool) \<Rightarrow> zone_change list \<Rightarrow> zone_change \<Rightarrow> zone_change list" where
  "log_zone_change_event accepts table row = (if accepts row then table @ [row] else table)"

subsection \<open>The scanner callback\<close>

text \<open>The dictionary literal of lines 67-74. It has no \<^verbatim>\<open>last_seen\<close> key yet and its
  window is empty; \<^verbatim>\<open>avg_rssi\<close> starts at the placeholder \<open>-100\<close>.\<close>

definition new_beacon :: "byte list \<Rightarrow> advertisement \<Rightarrow> beacon" where
  "new_beacon beacon_data adv =
     \<lparr>uuid = take 16 (drop 2 beacon_data),
      name = (case device_name adv of None \<Rightarrow> ''Desconocido''
              | Some n \<Rightarrow> if n = [] then ''Desconocido'' else n),
      readings = [],
      avg_rssi = Some (- 100),
      home_rssi = None,
      status = NUEVO,
      last_seen = None\<rparr>"

definition detection_callback :: "real \<Rightarrow> advertisement \<Rightarrow> app_state \<Rightarrow> app_state" where
  "detection_callback now adv s =
     (case manufacturer_data adv 0x004c of
        None \<Rightarrow> s
      | Some beacon_data \<Rightarrow>
          if take 2 beacon_data = [0x02, 0x15] then
            let device_key = address adv;
                beacons = detected_beacons s;
                beacons = (if map_of beacons device_key = None
                           then AList.update device_key (new_beacon beacon_data adv) beacons
                           else beacons);
                beacons = AList.map_entry device_key
                            (\<lambda>data. data\<lparr>readings :=
                               deque_append RSSI_SAMPLES_COUNT (readings data) (rssi adv)\<rparr>)
                            beacons;
                beacons = AList.map_entry device_key
                            (\<lambda>data. data\<lparr>last_seen := Some now\<rparr>) beacons
            in s\<lparr>detected_beacons := beacons\<rparr>
          else s)"

subsection \<open>The calibration button\<close>

definition start_calibration :: "real \<Rightarrow> app_state \<Rightarrow> app_state" where
  "start_calibration now s =
     s\<lparr>mode := CALIBRATING,
       calibration_end_time := now + CALIBRATION_DURATION,
       perimeter_rssi_levels := [],
       detected_beacons :=
         map (\<lambda>(key, data). (key, data\<lparr>home_rssi := None, status := CALIBRANDO\<rparr>))
             (detected_beacons s),
       calibrate_button_disabled := True\<rparr>"

text \<open>Line 122 binds the handler to the button, its only caller. A Flet button whose
  \<^verbatim>\<open>disabled\<close> flag is set does not deliver clicks.\<close>

definition calibrate_button_click :: "real \<Rightarrow> app_state \<Rightarrow> app_state" where
  "calibrate_button_click now s =
     (if calibrate_button_disabled s then s else start_calibration now s)"

subsection \<open>One pass of \<^verbatim>\<open>ui_update_loop\<close>\<close>

text \<open>Lines 164-173: stale beacons are deleted, the others get the mean of their window.
  \<^verbatim>\<open>data.get('last_seen', 0)\<close> reads a missing time stamp as 0.\<close>

definition timed_out :: "real \<Rightarrow> beacon \<Rightarrow> bool" where
  "timed_out current_time data =
     (current_time - (case last_seen data of None \<Rightarrow> 0 | Some t \<Rightarrow> t) > BEACON_TIMEOUT)"

definition refresh_avg :: "beacon \<Rightarrow> beacon" where
  "refresh_avg data =
     (if readings data \<noteq> [] then data\<lparr>avg_rssi := Some (mean (readings data))\<rparr> else data)"

definition sweep_and_average :: "real \<Rightarrow> (string \<times> beacon) list \<Rightarrow> (string \<times> beacon) list" where
  "sweep_and_average current_time beacons =
     map (\<lambda>(key, data). (key, refresh_avg data))
         (filter (\<lambda>(key, data). \<not> timed_out current_time data) beacons)"

text \<open>Lines 185-201: the end of a calibration.\<close>

definition set_home :: "beacon \<Rightarrow> beacon" where
  "set_home data =
     (if avg_rssi data \<noteq> None then data\<lparr>home_rssi := avg_rssi data\<rparr> else data)"

definition home_rssis_of :: "(string \<times> beacon) list \<Rightarrow> real list" where
  "home_rssis_of beacons = List.map_filter (\<lambda>(key, d). home_rssi d) beacons"

definition perimeter_levels :: "real list \<Rightarrow> real list" where
  "perimeter_levels home_rssis =
     (let (p_inner, p_mid, p_outer) =
            (if home_rssis \<noteq> [] then
               let weakest_rssi = min_list home_rssis;
                   p_inner = py_sub weakest_rssi 5
               in (p_inner, py_sub p_inner 15, py_sub p_inner 30)
             else (0, 0, 0));
          p_inner = min (- 35) p_inner
      in rev (sort [p_inner, p_mid, p_outer]))"

definition finish_calibration :: "app_state \<Rightarrow> app_state" where
  "finish_calibration s =
     (let beacons = map (\<lambda>(key, data). (key, set_home data)) (detected_beacons s)
      in s\<lparr>mode := MONITORING,
           calibrate_button_disabled := False,
           detected_beacons := beacons,
           perimeter_rssi_levels := perimeter_levels (home_rssis_of beacons)\<rparr>)"

text \<open>Lines 206-225: classification of one beacon, with the calls of
  \<^verbatim>\<open>log_zone_change_event\<close> it makes.\<close>

definition zone_of :: "real \<Rightarrow> real \<Rightarrow> real \<Rightarrow> real \<Rightarrow> status" where
  "zone_of p_inner p_mid p_outer r =
     (if r \<ge> p_inner then ZONA_1
      else if p_mid \<le> r \<and> r < p_inner then ZONA_2
      else if p_outer \<le> r \<and> r < p_mid then ZONA_3
      else FUERA)"

definition classify ::
  "real \<Rightarrow> real \<Rightarrow> real \<Rightarrow> string \<Rightarrow> beacon \<Rightarrow> beacon \<times> zone_change list" where
  "classify p_inner p_mid p_outer key data =
     (case avg_rssi data of
        None \<Rightarrow> (data, [])
      | Some r \<Rightarrow>
          let old_status = status data;
              new_status = zone_of p_inner p_mid p_outer r
          in if new_status \<noteq> old_status then
               (data\<lparr>status := new_status\<rparr>,
                if new_status = FUERA \<or> old_status = FUERA
                then [(key, old_status, new_status)] else [])
             else (data, []))"

definition monitor :: "real \<Rightarrow> real \<Rightarrow> real \<Rightarrow> app_state \<Rightarrow> app_state" where
  "monitor p_inner p_mid p_outer s =
     (let calls = concat (map (\<lambda>(key, data). snd (classify p_inner p_mid p_outer key data))
                            (detected_beacons s))
      in s\<lparr>detected_beacons :=
             map (\<lambda>(key, data). (key, fst (classify p_inner p_mid p_outer key data)))
                 (detected_beacons s),
           sink_calls := sink_calls s @ calls,
           eventos := foldl (log_zone_change_event (db_accepts s)) (eventos s) calls\<rparr>)"

text \<open>The unpacking \<^verbatim>\<open>p_inner, p_mid, p_outer = levels\<close> raises \<^verbatim>\<open>ValueError\<close> unless the
  list has three items.\<close>

definition ui_update_tick :: "real \<Rightarrow> app_state \<Rightarrow> error + app_state" where
  "ui_update_tick current_time s0 =
     (let s = s0\<lparr>detected_beacons := sweep_and_average current_time (detected_beacons s0)\<rparr>
      in if mode s = CALIBRATING then
           (if calibration_end_time s - current_time > 0 then Inr s
            else Inr (finish_calibration s))
         else if mode s = MONITORING then
           (case perimeter_rssi_levels s of
              [] \<Rightarrow> Inr s
            | [p_inner, p_mid, p_outer] \<Rightarrow> Inr (monitor p_inner p_mid p_outer s)
            | _ \<Rightarrow> Inl ValueError)
         else Inr s)"

subsection \<open>Runs of the program\<close>

text \<open>The program moves by advertisements reaching the scanner callback, by clicks on the
  calibration button and by passes of the polling loop, each at a clock reading. The
  database server may change, at any moment, which inserts it accepts.\<close>

datatype action =
    Advertise real advertisement
  | Click real
  | Tick real
  | Database "zone_change \<Rightarrow> bool"

fun step :: "action \<Rightarrow> app_state \<Rightarrow> error + app_state" where
  "step (Advertise now adv) s = Inr (detection_callback now adv s)"
| "step (Click now) s = Inr (calibrate_button_click now s)"
| "step (Tick now) s = ui_update_tick now s"
| "step (Database accepts) s = Inr (s\<lparr>db_accepts := accepts\<rparr>)"

fun run :: "action list \<Rightarrow> app_state \<Rightarrow> error + app_state" where
  "run [] s = Inr s"
| "run (a # as) s = (case step a s of Inl e \<Rightarrow> Inl e | Inr s' \<Rightarrow> run as s')"


section \<open>beacon2.py\<close>

datatype trend = Calculando | Acercandose | Alejandose | Estable

record beacon2 =
  uuid2 :: "byte list"
  major2 :: nat
  minor2 :: nat
  readings2 :: "int list"
  avg_rssi2 :: "real option"
  prev_avg_rssi2 :: "real option"
  trend2 :: trend
  last_seen2 :: "real option"

definition BEACON_TIMEOUT2 :: real where
  "BEACON_TIMEOUT2 = 10"

definition RSSI_SAMPLES_COUNT2 :: nat where
  "RSSI_SAMPLES_COUNT2 = 10"

definition TREND_THRESHOLD2 :: real where
  "TREND_THRESHOLD2 = 1.5"

text \<open>\<^verbatim>\<open>int.from_bytes(bs, 'big')\<close>; the empty byte string gives 0.\<close>

definition from_bytes_big :: "byte list \<Rightarrow> nat" where
  "from_bytes_big bs = foldl (\<lambda>acc b. 256 * acc + unat b) 0 bs"

text \<open>The dictionary literal of lines 40-48: no \<^verbatim>\<open>last_seen\<close> key yet, an empty window
  and no average.\<close>

definition new_beacon2 :: "byte list \<Rightarrow> beacon2" where
  "new_beacon2 beacon_data =
     \<lparr>uuid2 = take 16 (drop 2 beacon_data),
      major2 = from_bytes_big (take 2 (drop 18 beacon_data)),
      minor2 = from_bytes_big (take 2 (drop 20 beacon_data)),
      readings2 = [],
      avg_rssi2 = None,
      prev_avg_rssi2 = None,
      trend2 = Calculando,
      last_seen2 = None\<rparr>"

definition detection_callback2 ::
  "real \<Rightarrow> advertisement \<Rightarrow> (string \<times> beacon2) list \<Rightarrow> (string \<times> beacon2) list" where
  "detection_callback2 now adv detected_beacons2 =
     (case manufacturer_data adv 0x004c of
        None \<Rightarrow> detected_beacons2
      | Some beacon_data \<Rightarrow>
          if take 2 beacon_data = [0x02, 0x15] then
            let device_key = address adv;
                beacons = (if map_of detected_beacons2 device_key = None
                           then AList.update device_key (new_beacon2 beacon_data)
                                  detected_beacons2
                           else detected_beacons2);
                beacons = AList.map_entry device_key
                            (\<lambda>data. data\<lparr>readings2 :=
                               deque_append RSSI_SAMPLES_COUNT2 (readings2 data) (rssi adv)\<rparr>)
                            beacons
            in AList.map_entry device_key (\<lambda>data. data\<lparr>last_seen2 := Some now\<rparr>) beacons
          else detected_beacons2)"

text \<open>Lines 71-90, for one beacon that survived the time-out test.\<close>

definition update_trend2 :: "beacon2 \<Rightarrow> beacon2" where
  "update_trend2 data0 =
     (if length (readings2 data0) > 0 then
        let new_avg = mean (readings2 data0);
            data = (if avg_rssi2 data0 \<noteq> None
                    then data0\<lparr>prev_avg_rssi2 := avg_rssi2 data0\<rparr> else data0);
            data = data\<lparr>avg_rssi2 := Some new_avg\<rparr>
        in case prev_avg_rssi2 data of
             None \<Rightarrow> data
           | Some prev \<Rightarrow>
               let delta = py_sub new_avg prev
               in if delta > TREND_THRESHOLD2 then data\<lparr>trend2 := Acercandose\<rparr>
                  else if delta < - TREND_THRESHOLD2 then data\<lparr>trend2 := Alejandose\<rparr>
                  else data\<lparr>trend2 := Estable\<rparr>
      else data0)"

text \<open>One pass of the \<^verbatim>\<open>while True\<close> loop of \<^verbatim>\<open>main\<close>, lines 61-90, as a recursion
  over the snapshot \<^verbatim>\<open>list(detected_beacons.items())\<close>. The subscript
  \<^verbatim>\<open>data['last_seen']\<close> raises \<^verbatim>\<open>KeyError\<close> on a record without that key.\<close>

fun main_tick2 :: "real \<Rightarrow> (string \<times> beacon2) list \<Rightarrow> error + (string \<times> beacon2) list" where
  "main_tick2 current_time [] = Inr []"
| "main_tick2 current_time ((key, data) # rest) =
     (case last_seen2 data of
        None \<Rightarrow> Inl KeyError
      | Some t \<Rightarrow>
          (case main_tick2 current_time rest of
             Inl e \<Rightarrow> Inl e
           | Inr rest' \<Rightarrow>
               if current_time - t > BEACON_TIMEOUT2 then Inr rest'
               else Inr ((key, update_trend2 data) # rest')))"

datatype action2 =
    Advertise2 real advertisement
  | Tick2 real

fun step2 :: "action2 \<Rightarrow> (string \<times> beacon2) list \<Rightarrow> error + (string \<times> beacon2) list" where
  "step2 (Advertise2 now adv) bs = Inr (detection_callback2 now adv bs)"
| "step2 (Tick2 now) bs = main_tick2 now bs"

fun run2 :: "action2 list \<Rightarrow> (string \<times> beacon2) list \<Rightarrow> error + (string \<times> beacon2) list" where
  "run2 [] bs = Inr bs"
| "run2 (a # as) bs = (case step2 a bs of Inl e \<Rightarrow> Inl e | Inr bs' \<Rightarrow> run2 as bs')"


section \<open>Sample inputs\<close>

text \<open>A well-formed iBeacon advertisement from address \<open>addr\<close> with reading \<open>r\<close>: the
  Apple company id \<open>0x004c\<close>, the marker \<open>02 15\<close>, sixteen UUID bytes, major 1 and
  minor 2. The examples below are built from it.\<close>

definition sample_payload :: "byte list" where
  "sample_payload = [0x02, 0x15] @ replicate 16 0xAB @ [0x00, 0x01, 0x00, 0x02]"

definition sample_advert :: "string \<Rightarrow> int \<Rightarrow> advertisement" where
  "sample_advert addr r =
     \<lparr>address = addr, device_name = None,
      manufacturer_data = [0x004c \<mapsto> sample_payload], rssi = r\<rparr>"

text \<open>\<open>after acts\<close> is the state \<^verbatim>\<open>beacon_detector.py\<close> is in once the callbacks, button
  presses and polling passes \<open>acts\<close> have run from the initial state, and
  \<open>after2 acts\<close> the registry of \<^verbatim>\<open>beacon2.py\<close> likewise.\<close>

definition after :: "action list \<Rightarrow> app_state" where
  "after acts = (case run acts APP_STATE of Inr s \<Rightarrow> s | Inl e \<Rightarrow> APP_STATE)"

definition after2 :: "action2 list \<Rightarrow> (string \<times> beacon2) list" where
  "after2 acts = (case run2 acts [] of Inr bs \<Rightarrow> bs | Inl e \<Rightarrow> [])"

text \<open>One beacon heard at \<open>-70\<close> dBm, a calibration started at time 0 and the polling pass
  at time 10 that ends it.\<close>

definition calibrated_at_70 :: "action list" where
  "calibrated_at_70 = [Advertise 0 (sample_advert ''AA'' (- 70)), Click 0, Tick 10]"

text \<open>A calibration started and ended with no beacon tracked, and three beacons heard at
  \<open>-50\<close>, \<open>-60\<close> and \<open>-70\<close> dBm followed by the start of a calibration.\<close>

definition empty_calibration :: "action list" where
  "empty_calibration = [Click 0, Tick 10]"

definition three_baselines :: "action list" where
  "three_baselines =
     [Advertise 0 (sample_advert ''AA'' (- 50)), Advertise 0 (sample_advert ''BB'' (- 60)),
      Advertise 0 (sample_advert ''CC'' (- 70)), Click 0]"

text \<open>After the calibration at \<open>-70\<close> dBm and one monitoring pass the beacon is in zone 1;
  a further reading of \<open>-150\<close> moves the mean of its window to \<open>-110\<close>, a reading of
  \<open>-90\<close> moves it to \<open>-80\<close>.\<close>

definition zone_1_then_far :: "action list" where
  "zone_1_then_far = calibrated_at_70 @ [Tick 11, Advertise 12 (sample_advert ''AA'' (- 150))]"

definition zone_1_then_zone_2 :: "action list" where
  "zone_1_then_zone_2 = calibrated_at_70 @ [Tick 11, Advertise 12 (sample_advert ''AA'' (- 90))]"

text \<open>A calibration started at time 0 and a beacon first heard at time 1, while it runs.\<close>

definition seen_while_calibrating :: "action list" where
  "seen_while_calibrating = [Click 0, Advertise 1 (sample_advert ''AA'' (- 70))]"

text \<open>Two malformed advertisements under the Apple company id: one whose payload is the
  marker and nothing else, one whose payload starts with other bytes.\<close>

definition truncated_advert :: advertisement where
  "truncated_advert =
     \<lparr>address = ''AA'', device_name = None,
      manufacturer_data = [0x004c \<mapsto> [0x02, 0x15]], rssi = - 70\<rparr>"

definition wrong_marker_advert :: advertisement where
  "wrong_marker_advert =
     \<lparr>address = ''AA'', device_name = None,
      manufacturer_data = [0x004c \<mapsto> [0x10, 0x05, 0x01]], rssi = - 70\<rparr>"

text \<open>Runs of \<^verbatim>\<open>beacon2.py\<close>: a reading \<open>a\<close> and a pass of the loop, which makes \<open>a\<close> the
  first average; then a reading \<open>b\<close> and a second pass, whose average is the mean of
  \<open>a\<close> and \<open>b\<close>.\<close>

definition one_average :: "action2 list" where
  "one_average = [Advertise2 0 (sample_advert ''AA'' (- 60)), Tick2 1]"

definition two_averages :: "int \<Rightarrow> int \<Rightarrow> action2 list" where
  "two_averages a b =
     [Advertise2 0 (sample_advert ''AA'' a), Tick2 1,
      Advertise2 2 (sample_advert ''AA'' b), Tick2 3]"

section \<open>Well-formed states\<close>

text \<open>What every state reached from the initial one satisfies; these predicates serve the
  proofs below. A tracked beacon of \<^verbatim>\<open>beacon_detector.py\<close> has a non-empty window of at
  most ten readings, an average and a time stamp; the keys of the registry are distinct,
  the stored levels are absent or three values in descending order, and the button is
  disabled while calibrating.\<close>

definition beacon_ok :: "beacon \<Rightarrow> bool" where
  "beacon_ok d = (readings d \<noteq> [] \<and> length (readings d) \<le> RSSI_SAMPLES_COUNT \<and>
                  avg_rssi d \<noteq> None \<and> last_seen d \<noteq> None)"

definition state_ok :: "app_state \<Rightarrow> bool" where
  "state_ok s =
     (distinct (map fst (detected_beacons s)) \<and>
      (\<forall>k d. map_of (detected_beacons s) k = Some d \<longrightarrow> beacon_ok d) \<and>
      (perimeter_rssi_levels s = [] \<or>
       (\<exists>hi md lo. perimeter_rssi_levels s = [hi, md, lo] \<and> hi \<ge> md \<and> md \<ge> lo)) \<and>
      (mode s = MONITORING \<longrightarrow> perimeter_rssi_levels s \<noteq> []) \<and>
      (mode s = CALIBRATING \<longrightarrow> calibrate_button_disabled s \<and> perimeter_rssi_levels s = []))"

text \<open>A tracked beacon of \<^verbatim>\<open>beacon2.py\<close> has a non-empty window of at most ten readings
  and a time stamp; it has no previous average before it has an average, and its trend is
  the initial one as long as it has no previous average. \<open>stale2\<close> is the time-out test
  of line 66.\<close>

definition beacon2_ok :: "beacon2 \<Rightarrow> bool" where
  "beacon2_ok d = (readings2 d \<noteq> [] \<and> length (readings2 d) \<le> RSSI_SAMPLES_COUNT2 \<and>
                   last_seen2 d \<noteq> None \<and>
                   (avg_rssi2 d = None \<longrightarrow> prev_avg_rssi2 d = None) \<and>
                   (prev_avg_rssi2 d = None \<longrightarrow> trend2 d = Calculando))"

definition state2_ok :: "(string \<times> beacon2) list \<Rightarrow> bool" where
  "state2_ok bs = (distinct (map fst bs) \<and> (\<forall>k d. map_of bs k = Some d \<longrightarrow> beacon2_ok d))"

definition stale2 :: "real \<Rightarrow> beacon2 \<Rightarrow> bool" where
  "stale2 now d = (case last_seen2 d of None \<Rightarrow> False | Some t \<Rightarrow> now - t > BEACON_TIMEOUT2)"
section \<open>Auxiliary facts\<close>

lemma map_of_map_entries:
  "map_of (map (\<lambda>(k, d). (k, f k d)) bs) key = map_option (f key) (map_of bs key)"
  by (induction bs) auto

lemma map_of_filter_distinct:
  "distinct (map fst bs) \<Longrightarrow>
   map_of (filter (\<lambda>(k, d). P d) bs) key =
     (case map_of bs key of None \<Rightarrow> None | Some d \<Rightarrow> if P d then Some d else None)"
  by (induction bs) (auto split: option.splits simp: map_of_eq_None_iff image_iff)

lemma map_of_sweep:
  "distinct (map fst bs) \<Longrightarrow>
   map_of (sweep_and_average now bs) key =
     (case map_of bs key of None \<Rightarrow> None
      | Some d \<Rightarrow> if timed_out now d then None else Some (refresh_avg d))"
  unfolding sweep_and_average_def
  by (simp add: map_of_map_entries map_of_filter_distinct split: option.splits)

lemma fst_map_entries [simp]: "map fst (map (\<lambda>(k, d). (k, f k d)) bs) = map fst bs"
  by (induction bs) auto

lemma distinct_sweep:
  "distinct (map fst bs) \<Longrightarrow> distinct (map fst (sweep_and_average now bs))"
  unfolding sweep_and_average_def
  by (simp add: comp_def case_prod_beta distinct_map_filter)

lemma sorted3:
  "\<exists>hi md lo. rev (sort [a, b, c :: real]) = [hi, md, lo] \<and> hi \<ge> md \<and> md \<ge> lo"
  by (auto simp: insort_key.simps)

lemma perimeter_levels_shape:
  "\<exists>hi md lo. perimeter_levels hs = [hi, md, lo] \<and> hi \<ge> md \<and> md \<ge> lo"
  unfolding perimeter_levels_def Let_def by (simp only: split: prod.splits) (use sorted3 in blast)

lemma state_ok_init: "state_ok APP_STATE"
  by (simp add: state_ok_def APP_STATE_def)

lemma deque_append_ok:
  "length q \<le> RSSI_SAMPLES_COUNT \<Longrightarrow>
   deque_append RSSI_SAMPLES_COUNT q x \<noteq> [] \<and>
   length (deque_append RSSI_SAMPLES_COUNT q x) \<le> RSSI_SAMPLES_COUNT"
  by (cases q) (auto simp: deque_append_def RSSI_SAMPLES_COUNT_def Let_def)

lemma state_ok_callback:
  assumes "state_ok s"
  shows "state_ok (detection_callback now adv s)"
proof (cases "manufacturer_data adv 0x004c")
  case None
  then show ?thesis using assms by (simp add: detection_callback_def)
next
  case (Some beacon_data)
  show ?thesis
  proof (cases "take 2 beacon_data = [0x02, 0x15]")
    case False
    then show ?thesis using assms Some by (simp add: detection_callback_def)
  next
    case True
    have dist: "distinct (map fst (detected_beacons s))"
      and ok: "\<And>k d. map_of (detected_beacons s) k = Some d \<Longrightarrow> beacon_ok d"
      using assms by (auto simp: state_ok_def)
    have new: "length (readings (new_beacon beacon_data adv)) \<le> RSSI_SAMPLES_COUNT"
      by (simp add: new_beacon_def)
    show ?thesis
      using assms Some True new
      unfolding state_ok_def detection_callback_def Let_def
      by (auto simp: distinct_map_entry distinct_update map_of_map_entry update_conv'
            beacon_ok_def deque_append_ok new_beacon_def
          split: option.splits if_splits)
  qed
qed

lemma state_ok_start: "state_ok s \<Longrightarrow> state_ok (start_calibration now s)"
  unfolding state_ok_def start_calibration_def
  by (auto simp: map_of_map_entries beacon_ok_def comp_def case_prod_beta)

lemma state_ok_click: "state_ok s \<Longrightarrow> state_ok (calibrate_button_click now s)"
  by (simp add: calibrate_button_click_def state_ok_start)

lemma state_ok_database: "state_ok s \<Longrightarrow> state_ok (s\<lparr>db_accepts := accepts\<rparr>)"
  by (simp add: state_ok_def)

lemma beacon_ok_refresh: "beacon_ok d \<Longrightarrow> beacon_ok (refresh_avg d)"
  by (simp add: beacon_ok_def refresh_avg_def)

lemma beacon_ok_set_home: "beacon_ok d \<Longrightarrow> beacon_ok (set_home d)"
  by (simp add: beacon_ok_def set_home_def)

lemma beacon_ok_classify: "beacon_ok d \<Longrightarrow> beacon_ok (fst (classify a b c k d))"
  by (simp add: beacon_ok_def classify_def Let_def split: option.splits)

lemma state_ok_sweep:
  "state_ok s \<Longrightarrow>
   state_ok (s\<lparr>detected_beacons := sweep_and_average now (detected_beacons s)\<rparr>)"
  unfolding state_ok_def
  by (auto simp: distinct_sweep map_of_sweep beacon_ok_refresh split: option.splits if_splits)

lemma state_ok_finish:
  assumes "state_ok s"
  shows "state_ok (finish_calibration s)"
proof -
  let ?bs = "map (\<lambda>(key, data). (key, set_home data)) (detected_beacons s)"
  obtain hi md lo where lv: "perimeter_levels (home_rssis_of ?bs) = [hi, md, lo]"
    "hi \<ge> md" "md \<ge> lo"
    using perimeter_levels_shape by blast
  show ?thesis
    using assms lv unfolding state_ok_def finish_calibration_def Let_def
    by (auto simp: map_of_map_entries beacon_ok_set_home comp_def case_prod_beta)
qed

lemma state_ok_monitor: "state_ok s \<Longrightarrow> state_ok (monitor a b c s)"
  unfolding state_ok_def monitor_def Let_def
  by (auto simp: map_of_map_entries beacon_ok_classify comp_def case_prod_beta)

lemma state_ok_tick:
  assumes "state_ok s"
  shows "\<exists>s'. ui_update_tick now s = Inr s' \<and> state_ok s'"
proof -
  let ?s = "s\<lparr>detected_beacons := sweep_and_average now (detected_beacons s)\<rparr>"
  have ok: "state_ok ?s" using assms by (rule state_ok_sweep)
  then have shape: "perimeter_rssi_levels ?s = [] \<or>
      (\<exists>hi md lo. perimeter_rssi_levels ?s = [hi, md, lo])"
    by (auto simp: state_ok_def)
  show ?thesis
    using ok shape state_ok_finish [OF ok] state_ok_monitor [OF ok]
    by (auto simp: ui_update_tick_def Let_def)
qed

lemma state_ok_step: "state_ok s \<Longrightarrow> \<exists>s'. step a s = Inr s' \<and> state_ok s'"
  by (cases a) (auto simp: state_ok_callback state_ok_click state_ok_tick state_ok_database)

lemma state_ok_run: "state_ok s \<Longrightarrow> \<exists>s'. run acts s = Inr s' \<and> state_ok s'"
proof (induction acts arbitrary: s)
  case Nil
  then show ?case by simp
next
  case (Cons a acts)
  from state_ok_step [OF Cons.prems, of a] obtain s1
    where "step a s = Inr s1" "state_ok s1" by blast
  then show ?case using Cons.IH [of s1] by simp
qed

lemma run_ok: "run acts APP_STATE = Inr s \<Longrightarrow> state_ok s"
  using state_ok_run [OF state_ok_init, of acts] by auto

lemma deque_append_ok2:
  "length q \<le> RSSI_SAMPLES_COUNT2 \<Longrightarrow>
   deque_append RSSI_SAMPLES_COUNT2 q x \<noteq> [] \<and>
   length (deque_append RSSI_SAMPLES_COUNT2 q x) \<le> RSSI_SAMPLES_COUNT2"
  by (cases q) (auto simp: deque_append_def RSSI_SAMPLES_COUNT2_def Let_def)

lemma state2_ok_callback:
  assumes "state2_ok bs"
  shows "state2_ok (detection_callback2 now adv bs)"
proof (cases "manufacturer_data adv 0x004c")
  case None
  then show ?thesis using assms by (simp add: detection_callback2_def)
next
  case (Some beacon_data)
  show ?thesis
  proof (cases "take 2 beacon_data = [0x02, 0x15]")
    case False
    then show ?thesis using assms Some by (simp add: detection_callback2_def)
  next
    case True
    show ?thesis
      using assms Some True
      unfolding state2_ok_def detection_callback2_def Let_def
      by (auto simp: distinct_map_entry distinct_update map_of_map_entry update_conv'
            beacon2_ok_def deque_append_ok2 new_beacon2_def
          split: option.splits if_splits)
  qed
qed

lemma beacon2_ok_update: "beacon2_ok d \<Longrightarrow> beacon2_ok (update_trend2 d)"
  by (auto simp: beacon2_ok_def update_trend2_def Let_def split: option.splits)

lemma main_tick2_eq:
  "\<forall>(k, d) \<in> set bs. last_seen2 d \<noteq> None \<Longrightarrow>
   main_tick2 now bs =
     Inr (map (\<lambda>(k, d). (k, update_trend2 d)) (filter (\<lambda>(k, d). \<not> stale2 now d) bs))"
  by (induction bs) (auto simp: stale2_def)

lemma state2_ok_last_seen:
  "state2_ok bs \<Longrightarrow> \<forall>(k, d) \<in> set bs. last_seen2 d \<noteq> None"
  unfolding state2_ok_def beacon2_ok_def by (auto dest!: map_of_is_SomeI)

lemma main_tick2_ok:
  assumes "state2_ok bs"
  shows "main_tick2 now bs =
     Inr (map (\<lambda>(k, d). (k, update_trend2 d)) (filter (\<lambda>(k, d). \<not> stale2 now d) bs))"
  using main_tick2_eq [OF state2_ok_last_seen [OF assms]] .

lemma map_of_tick2:
  assumes "state2_ok bs" and "main_tick2 now bs = Inr bs'"
  shows "map_of bs' key =
     (case map_of bs key of None \<Rightarrow> None
      | Some d \<Rightarrow> if stale2 now d then None else Some (update_trend2 d))"
proof -
  have "distinct (map fst bs)" using assms(1) by (simp add: state2_ok_def)
  then show ?thesis
    using assms(2) unfolding main_tick2_ok [OF assms(1)]
    by (auto simp: map_of_map_entries map_of_filter_distinct split: option.splits)
qed

lemma state2_ok_tick:
  assumes "state2_ok bs"
  shows "\<exists>bs'. main_tick2 now bs = Inr bs' \<and> state2_ok bs'"
proof -
  let ?bs' = "map (\<lambda>(k, d). (k, update_trend2 d)) (filter (\<lambda>(k, d). \<not> stale2 now d) bs)"
  have eq: "main_tick2 now bs = Inr ?bs'" using assms by (rule main_tick2_ok)
  have "distinct (map fst ?bs')"
    using assms by (simp add: state2_ok_def comp_def case_prod_beta distinct_map_filter)
  moreover have "\<forall>k d. map_of ?bs' k = Some d \<longrightarrow> beacon2_ok d"
    using assms map_of_tick2 [OF assms eq]
    by (auto simp: state2_ok_def beacon2_ok_update split: option.splits if_splits)
  ultimately show ?thesis using eq by (simp add: state2_ok_def)
qed

lemma state2_ok_step: "state2_ok bs \<Longrightarrow> \<exists>bs'. step2 a bs = Inr bs' \<and> state2_ok bs'"
  by (cases a) (auto simp: state2_ok_callback state2_ok_tick)

lemma state2_ok_run: "state2_ok bs \<Longrightarrow> \<exists>bs'. run2 acts bs = Inr bs' \<and> state2_ok bs'"
proof (induction acts arbitrary: bs)
  case Nil
  then show ?case by simp
next
  case (Cons a acts)
  from state2_ok_step [OF Cons.prems, of a] obtain b1
    where "step2 a bs = Inr b1" "state2_ok b1" by blast
  then show ?case using Cons.IH [of b1] by simp
qed

lemma run2_ok: "run2 acts [] = Inr bs \<Longrightarrow> state2_ok bs"
  using state2_ok_run [of "[]" acts] by (auto simp: state2_ok_def)

lemmas fl_defs = fl_def binade_def round_half_even_def compute_floorlog py_sub_def mean_def

lemmas eval_defs = detection_callback_def sample_advert_def sample_payload_def new_beacon_def
  deque_append_def RSSI_SAMPLES_COUNT_def start_calibration_def calibrate_button_click_def
  CALIBRATION_DURATION_def ui_update_tick_def sweep_and_average_def timed_out_def
  BEACON_TIMEOUT_def refresh_avg_def finish_calibration_def set_home_def home_rssis_of_def
  perimeter_levels_def monitor_def classify_def zone_of_def log_zone_change_event_def
  APP_STATE_def List.map_filter_def Let_def fl_defs

lemma run_calibrated_at_70: "run calibrated_at_70 APP_STATE = Inr (after calibrated_at_70)"
  by (simp add: after_def calibrated_at_70_def eval_defs)

lemma after_calibrated_at_70:
  "mode (after calibrated_at_70) = MONITORING"
  "perimeter_rssi_levels (after calibrated_at_70) = [- 75, - 90, - 105]"
  "map (\<lambda>(k, d). (k, readings d, last_seen d, status d)) (detected_beacons (after calibrated_at_70))
     = [(''AA'', [- 70], Some 0, CALIBRANDO)]"
  by (simp_all add: after_def calibrated_at_70_def eval_defs)
section \<open>Rounding\<close>

text \<open>
  The exponent function meets its specification: \<open>2\<^sup>e \<le> |x| < 2\<^sup>e\<^sup>+\<^sup>1\<close> for \<open>e = binade x\<close>.
\<close>

lemma binade_bounds:
  assumes "x \<noteq> 0"
  shows "2 powi binade x \<le> \<bar>x\<bar> \<and> \<bar>x\<bar> < 2 powi (binade x + 1)"
proof (cases "1 \<le> \<bar>x\<bar>")
  case True
  define n where "n = nat \<lfloor>\<bar>x\<bar>\<rfloor>"
  define k where "k = floorlog 2 n"
  have n: "0 < n" "real n \<le> \<bar>x\<bar>" "\<bar>x\<bar> < real n + 1"
    using True unfolding n_def by linarith+
  from floorlog_bounds [of n 2] n(1) have b: "2 ^ (k - 1) \<le> n" "n < 2 ^ k"
    unfolding k_def by simp_all
  have k: "0 < k" using n(1) unfolding k_def by (simp add: floorlog_def)
  have e: "binade x = int k - 1" using True by (simp add: binade_def n_def k_def)
  have lo: "(2::real) ^ (k - 1) \<le> \<bar>x\<bar>"
  proof -
    have "real (2 ^ (k - 1)) \<le> real n" using b(1) by (simp only: of_nat_le_iff)
    then have "(2::real) ^ (k - 1) \<le> real n" by simp
    with n(2) show ?thesis by linarith
  qed
  have hi: "\<bar>x\<bar> < (2::real) ^ k"
  proof -
    have "n + 1 \<le> 2 ^ k" using b(2) by simp
    then have "real (n + 1) \<le> real (2 ^ k)" by (simp only: of_nat_le_iff)
    then have "real n + 1 \<le> (2::real) ^ k" by simp
    with n(3) show ?thesis by linarith
  qed
  have "int k - 1 = int (k - 1)" using k by simp
  then have p1: "(2::real) powi (int k - 1) = 2 ^ (k - 1)"
    by (simp only: power_int_of_nat)
  have "int k - 1 + 1 = int k" by simp
  then have p2: "(2::real) powi (int k - 1 + 1) = 2 ^ k"
    by (simp only: power_int_of_nat)
  show ?thesis unfolding e p1 p2 using lo hi by simp
next
  case False
  define m where "m = nat (\<lceil>1 / \<bar>x\<bar>\<rceil> - 1)"
  define k where "k = floorlog 2 m"
  have ax: "0 < \<bar>x\<bar>" "\<bar>x\<bar> < 1" using assms False by simp_all
  then have y: "1 < 1 / \<bar>x\<bar>" by simp
  then have c: "2 \<le> \<lceil>1 / \<bar>x\<bar>\<rceil>" by linarith
  have m: "0 < m" "real m < 1 / \<bar>x\<bar>" "1 / \<bar>x\<bar> \<le> real m + 1"
    using c unfolding m_def by linarith+
  from floorlog_bounds [of m 2] m(1) have b: "2 ^ (k - 1) \<le> m" "m < 2 ^ k"
    unfolding k_def by simp_all
  have k: "0 < k" using m(1) unfolding k_def by (simp add: floorlog_def)
  have e: "binade x = - int k" using False by (simp add: binade_def m_def k_def)
  have up: "1 / \<bar>x\<bar> \<le> (2::real) ^ k"
  proof -
    have "m + 1 \<le> 2 ^ k" using b(2) by simp
    then have "real (m + 1) \<le> real (2 ^ k)" by (simp only: of_nat_le_iff)
    then have "real m + 1 \<le> (2::real) ^ k" by simp
    with m(3) show ?thesis by linarith
  qed
  have down: "(2::real) ^ (k - 1) < 1 / \<bar>x\<bar>"
  proof -
    have "real (2 ^ (k - 1)) \<le> real m" using b(1) by (simp only: of_nat_le_iff)
    then have "(2::real) ^ (k - 1) \<le> real m" by simp
    with m(2) show ?thesis by linarith
  qed
  have lo: "1 / (2::real) ^ k \<le> \<bar>x\<bar>"
    using up ax(1) by (simp add: field_simps)
  have hi: "\<bar>x\<bar> < 1 / (2::real) ^ (k - 1)"
    using down ax(1) by (simp add: field_simps)
  have p1: "(2::real) powi (- int k) = 1 / 2 ^ k"
    by (simp only: power_int_minus power_int_of_nat inverse_eq_divide)
  have "- int k + 1 = - int (k - 1)" using k by simp
  then have p2: "(2::real) powi (- int k + 1) = 1 / 2 ^ (k - 1)"
    by (simp only: power_int_minus power_int_of_nat inverse_eq_divide)
  show ?thesis unfolding e p1 p2 using lo hi by simp
qed

text \<open>
  The rounding \<open>fl\<close> evaluated: the double nearest to one tenth; a half-integer is kept;
  two windows whose exact means differ by 1.5 and whose computed means differ by more; a
  mean that lies below a threshold derived from another window although the exact values
  coincide.
\<close>

lemma rounding_examples:
  "fl (1 / 10) = 3602879701896397 / 36028797018963968"
  "fl (- 101 / 2) = - 101 / 2"
  "py_sub (mean [- 64, - 65, - 65, - 62, - 62, - 61]) (mean [- 64, - 65, - 65]) =
     211106232532993 / 140737488355328"
  "mean [- 98, - 99, - 99] < last (perimeter_levels [mean [- 63, - 64, - 64]])"
  "- 296 / 3 = last [- 206 / 3, - 251 / 3, - 296 / 3 :: real]"
  by (simp_all add: fl_defs perimeter_levels_def Let_def)

lemma fl_zero: "fl 0 = 0"
  by (simp add: fl_def)

section \<open>Zone classification\<close>

lemma tick_monitoring:
  assumes "state_ok s" and "mode s = MONITORING"
    and "perimeter_rssi_levels s = [inner, mid, outer]"
  shows "ui_update_tick now s =
     Inr (monitor inner mid outer
            (s\<lparr>detected_beacons := sweep_and_average now (detected_beacons s)\<rparr>))"
  using assms by (simp add: ui_update_tick_def Let_def)

lemma swept_beacon:
  assumes "state_ok s"
    and "map_of (sweep_and_average now (detected_beacons s)) key = Some d1"
  shows "\<exists>d. map_of (detected_beacons s) key = Some d \<and> \<not> timed_out now d \<and>
             d1 = refresh_avg d \<and> avg_rssi d1 = Some (mean (readings d1)) \<and>
             readings d1 = readings d \<and> status d1 = status d \<and> home_rssi d1 = home_rssi d"
proof -
  have dist: "distinct (map fst (detected_beacons s))"
    and ok: "\<And>k d. map_of (detected_beacons s) k = Some d \<Longrightarrow> beacon_ok d"
    using assms(1) by (auto simp: state_ok_def)
  from assms(2) obtain d where d: "map_of (detected_beacons s) key = Some d"
    "\<not> timed_out now d" "d1 = refresh_avg d"
    by (auto simp: map_of_sweep [OF dist] split: option.splits if_splits)
  from ok [OF d(1)] d show ?thesis
    by (auto simp: beacon_ok_def refresh_avg_def)
qed

lemma tick_after_calibrated_at_70:
  "ui_update_tick 11 (after calibrated_at_70) = Inr s' \<Longrightarrow>
   map (\<lambda>(k, d). (k, readings d)) (detected_beacons s') = [(''AA'', [- 70])]"
  by (auto simp add: after_def calibrated_at_70_def eval_defs)

text \<open>
  C4. In a state the program can reach, in monitoring mode with thresholds
  \<open>[inner, mid, outer]\<close> stored, the polling pass keeps the thresholds and leaves every
  beacon it still tracks with an average \<open>r\<close>, the mean of its window as the program
  computes it, and with the zone of that average: \<^verbatim>\<open>ZONA 1\<close> exactly when \<open>r \<ge> inner\<close>,
  \<^verbatim>\<open>ZONA 2\<close> exactly when \<open>mid \<le> r < inner\<close>, \<^verbatim>\<open>ZONA 3\<close> exactly when \<open>outer \<le> r < mid\<close>,
  \<^verbatim>\<open>FUERA\<close> exactly when \<open>r < outer\<close>. With the thresholds \<open>[-75, -90, -105]\<close> the averages
  \<open>-70\<close>, \<open>-80\<close>, \<open>-95\<close>, \<open>-110\<close> fall into zone 1, zone 2, zone 3 and outside.
\<close>

theorem zone_classification:
  assumes "run acts APP_STATE = Inr s"
    and "mode s = MONITORING"
    and "perimeter_rssi_levels s = [inner, mid, outer]"
  shows "(\<exists>s'. ui_update_tick now s = Inr s' \<and>
           perimeter_rssi_levels s' = [inner, mid, outer] \<and>
           (\<forall>key d'. map_of (detected_beacons s') key = Some d' \<longrightarrow>
              (\<exists>r. avg_rssi d' = Some r \<and> r = mean (readings d') \<and>
                 (status d' = ZONA_1 \<longleftrightarrow> r \<ge> inner) \<and>
                 (status d' = ZONA_2 \<longleftrightarrow> mid \<le> r \<and> r < inner) \<and>
                 (status d' = ZONA_3 \<longleftrightarrow> outer \<le> r \<and> r < mid) \<and>
                 (status d' = FUERA \<longleftrightarrow> r < outer)))) \<and>
         zone_of (- 75) (- 90) (- 105) (- 70) = ZONA_1 \<and>
         zone_of (- 75) (- 90) (- 105) (- 80) = ZONA_2 \<and>
         zone_of (- 75) (- 90) (- 105) (- 95) = ZONA_3 \<and>
         zone_of (- 75) (- 90) (- 105) (- 110) = FUERA"
proof -
  have ok: "state_ok s" using assms(1) by (rule run_ok)
  then have ord: "inner \<ge> mid" "mid \<ge> outer"
    using assms(3) by (auto simp: state_ok_def)
  let ?s1 = "s\<lparr>detected_beacons := sweep_and_average now (detected_beacons s)\<rparr>"
  let ?s' = "monitor inner mid outer ?s1"
  have tick: "ui_update_tick now s = Inr ?s'"
    using ok assms(2,3) by (rule tick_monitoring)
  have lv: "perimeter_rssi_levels ?s' = [inner, mid, outer]"
    using assms(3) by (simp add: monitor_def Let_def)
  have each: "\<exists>r. avg_rssi d' = Some r \<and> r = mean (readings d') \<and>
                 (status d' = ZONA_1 \<longleftrightarrow> r \<ge> inner) \<and>
                 (status d' = ZONA_2 \<longleftrightarrow> mid \<le> r \<and> r < inner) \<and>
                 (status d' = ZONA_3 \<longleftrightarrow> outer \<le> r \<and> r < mid) \<and>
                 (status d' = FUERA \<longleftrightarrow> r < outer)"
    if "map_of (detected_beacons ?s') key = Some d'" for key d'
  proof -
    from that obtain d1 where d1: "map_of (sweep_and_average now (detected_beacons s)) key = Some d1"
      "d' = fst (classify inner mid outer key d1)"
      by (auto simp: monitor_def Let_def map_of_map_entries)
    from swept_beacon [OF ok d1(1)] have avg: "avg_rssi d1 = Some (mean (readings d1))" by blast
    have "avg_rssi d' = Some (mean (readings d'))" "readings d' = readings d1"
      "status d' = zone_of inner mid outer (mean (readings d1))"
      using avg unfolding d1(2) by (auto simp: classify_def Let_def)
    then show ?thesis using ord by (auto simp: zone_of_def)
  qed
  have general: "\<exists>s'. ui_update_tick now s = Inr s' \<and>
           perimeter_rssi_levels s' = [inner, mid, outer] \<and>
           (\<forall>key d'. map_of (detected_beacons s') key = Some d' \<longrightarrow>
              (\<exists>r. avg_rssi d' = Some r \<and> r = mean (readings d') \<and>
                 (status d' = ZONA_1 \<longleftrightarrow> r \<ge> inner) \<and>
                 (status d' = ZONA_2 \<longleftrightarrow> mid \<le> r \<and> r < inner) \<and>
                 (status d' = ZONA_3 \<longleftrightarrow> outer \<le> r \<and> r < mid) \<and>
                 (status d' = FUERA \<longleftrightarrow> r < outer)))"
    using tick lv each by blast
  show ?thesis
    using general by (simp add: zone_of_def)
qed

theorem zone_classification_witness:
  "\<exists>s' d'. ui_update_tick 11 (after calibrated_at_70) = Inr s' \<and>
           map_of (detected_beacons s') ''AA'' = Some d' \<and>
           avg_rssi d' = Some (- 70) \<and> status d' = ZONA_1"
proof -
  from zone_classification [OF run_calibrated_at_70 after_calibrated_at_70(1,2), of 11]
  obtain s' where s': "ui_update_tick 11 (after calibrated_at_70) = Inr s'"
    "\<forall>key d'. map_of (detected_beacons s') key = Some d' \<longrightarrow>
       (\<exists>r. avg_rssi d' = Some r \<and> r = mean (readings d') \<and>
          (status d' = ZONA_1 \<longleftrightarrow> r \<ge> - 75))"
    by blast
  from tick_after_calibrated_at_70 [OF s'(1)]
  obtain d' where d': "map_of (detected_beacons s') ''AA'' = Some d'" "readings d' = [- 70]"
    by (cases "detected_beacons s'") auto
  have m: "mean [- 70] = - 70" by (simp add: fl_defs)
  from s'(2) d' m have "avg_rssi d' = Some (- 70) \<and> status d' = ZONA_1" by fastforce
  with s'(1) d'(1) show ?thesis by blast
qed
section \<open>Calibration\<close>

lemma perimeter_levels_Min:
  "hs \<noteq> [] \<Longrightarrow> perimeter_levels hs =
     (let p_inner = py_sub (Min (set hs)) 5
      in rev (sort [min (- 35) p_inner, py_sub p_inner 15, py_sub p_inner 30]))"
  unfolding perimeter_levels_def Let_def by (simp add: min_list_Min)

lemma perimeter_levels_Nil: "perimeter_levels [] = [0, 0, - 35]"
  by (simp add: perimeter_levels_def)

lemma tick_finishing:
  assumes "mode s = CALIBRATING" and "calibration_end_time s - now \<le> 0"
  shows "ui_update_tick now s =
     Inr (finish_calibration
            (s\<lparr>detected_beacons := sweep_and_average now (detected_beacons s)\<rparr>))"
  using assms by (simp add: ui_update_tick_def Let_def)

lemma finish_levels:
  "perimeter_rssi_levels (finish_calibration s) =
     perimeter_levels (home_rssis_of (detected_beacons (finish_calibration s)))"
  "mode (finish_calibration s) = MONITORING"
  by (simp_all add: finish_calibration_def Let_def)


lemma after_three_baselines:
  "run three_baselines APP_STATE = Inr (after three_baselines)"
  "mode (after three_baselines) = CALIBRATING"
  "calibration_end_time (after three_baselines) - 10 \<le> 0"
  by (simp_all add: after_def three_baselines_def eval_defs)

lemma tick_three_baselines:
  "ui_update_tick 10 (after three_baselines) = Inr s' \<Longrightarrow>
     map (\<lambda>(k, d). (k, readings d)) (detected_beacons s') =
       [(''AA'', [- 50]), (''BB'', [- 60]), (''CC'', [- 70])] \<and>
     home_rssis_of (detected_beacons s') = [- 50, - 60, - 70]"
  by (auto simp add: after_def three_baselines_def eval_defs)




text \<open>
  C3, as the program has it. The polling pass that finds the calibration time elapsed
  switches to monitoring and stores the thresholds. With \<open>weakest\<close> the least baseline
  among the beacons that have one and \<open>-\<close> the subtraction of the program, they are
  \<open>min(-35, weakest - 5)\<close>, \<open>(weakest - 5) - 15\<close> and \<open>(weakest - 5) - 30\<close>, sorted in
  descending order. When no beacon has a baseline the three values start at 0 and only the
  first is clamped, so \<open>[0, 0, -35]\<close> is stored. The baselines \<open>-50, -60, -70\<close> give
  \<open>[-75, -90, -105]\<close>.
\<close>

theorem calibration_thresholds:
  assumes "mode s = CALIBRATING"
    and "calibration_end_time s - now \<le> 0"
  shows "(\<exists>s'. ui_update_tick now s = Inr s' \<and> mode s' = MONITORING \<and>
           perimeter_rssi_levels s' =
             (if home_rssis_of (detected_beacons s') = [] then [0, 0, - 35]
              else let weakest = Min (set (home_rssis_of (detected_beacons s')));
                       p_inner = py_sub weakest 5
                   in rev (sort [min (- 35) p_inner, py_sub p_inner 15, py_sub p_inner 30]))) \<and>
         perimeter_levels [- 50, - 60, - 70] = [- 75, - 90, - 105]"
proof -
  let ?s' = "finish_calibration
               (s\<lparr>detected_beacons := sweep_and_average now (detected_beacons s)\<rparr>)"
  have tick: "ui_update_tick now s = Inr ?s'" using assms by (rule tick_finishing)
  have lv: "perimeter_rssi_levels ?s' =
             (if home_rssis_of (detected_beacons ?s') = [] then [0, 0, - 35]
              else let weakest = Min (set (home_rssis_of (detected_beacons ?s')));
                       p_inner = py_sub weakest 5
                   in rev (sort [min (- 35) p_inner, py_sub p_inner 15, py_sub p_inner 30]))"
    unfolding finish_levels(1)
    by (simp add: perimeter_levels_Nil perimeter_levels_Min)
  have ex: "perimeter_levels [- 50, - 60, - 70] = [- 75, - 90, - 105]"
    by (simp add: perimeter_levels_def Let_def fl_defs)
  from tick lv finish_levels(2) [of "s\<lparr>detected_beacons := sweep_and_average now (detected_beacons s)\<rparr>"] ex
  show ?thesis by blast
qed

theorem calibration_thresholds_witness:
  "\<exists>s'. ui_update_tick 10 (after three_baselines) = Inr s' \<and> mode s' = MONITORING \<and>
        perimeter_rssi_levels s' = [- 75, - 90, - 105]"
proof -
  from calibration_thresholds [OF after_three_baselines(2,3)]
  obtain s' where s': "ui_update_tick 10 (after three_baselines) = Inr s'"
    "mode s' = MONITORING"
    "perimeter_rssi_levels s' =
             (if home_rssis_of (detected_beacons s') = [] then [0, 0, - 35]
              else let weakest = Min (set (home_rssis_of (detected_beacons s')));
                       p_inner = py_sub weakest 5
                   in rev (sort [min (- 35) p_inner, py_sub p_inner 15, py_sub p_inner 30]))"
    by blast
  have hs: "home_rssis_of (detected_beacons s') = [- 50, - 60, - 70]"
    using tick_three_baselines [OF s'(1)] by blast
  have w: "Min (set [- 50, - 60, - 70 :: real]) = - 70" by simp
  have "perimeter_rssi_levels s' = [- 75, - 90, - 105]"
    unfolding s'(3) hs w Let_def by (simp add: fl_defs)
  with s' show ?thesis by blast
qed

text \<open>
  C3 as written takes \<open>weakest = 0\<close> when there is no baseline, which would give
  \<open>[-20, -35, -35]\<close>; the program stores \<open>[0, 0, -35]\<close>.
\<close>

theorem calibration_thresholds_counterexample:
  "run empty_calibration APP_STATE = Inr (after empty_calibration) \<and>
   home_rssis_of (detected_beacons (after empty_calibration)) = [] \<and>
   perimeter_rssi_levels (after empty_calibration) = [0, 0, - 35] \<and>
   rev (sort [min (- 35) (py_sub 0 5), py_sub (py_sub 0 5) 15, py_sub (py_sub 0 5) 30])
     = [- 20, - 35, - 35]"
  by (simp add: after_def empty_calibration_def eval_defs)
section \<open>Transition events\<close>

lemma foldl_log_zone_change_event:
  "foldl (log_zone_change_event accepts) table calls = table @ filter accepts calls"
  by (induction calls arbitrary: table) (auto simp: log_zone_change_event_def)

lemma classify_calls:
  "snd (classify a b c key d) =
     (case avg_rssi d of None \<Rightarrow> []
      | Some r \<Rightarrow> if zone_of a b c r \<noteq> status d \<and> (zone_of a b c r = FUERA \<or> status d = FUERA)
                  then [(key, status d, zone_of a b c r)] else [])"
  by (auto simp: classify_def Let_def split: option.splits)

lemma calls_of_key:
  "distinct (map fst bs) \<Longrightarrow>
   filter (\<lambda>e. fst e = key) (concat (map (\<lambda>(k, d). snd (classify a b c k d)) bs)) =
     (case map_of bs key of None \<Rightarrow> [] | Some d \<Rightarrow> snd (classify a b c key d))"
proof (induction bs)
  case Nil
  then show ?case by simp
next
  case (Cons p bs)
  obtain k d where p: "p = (k, d)" by (cases p)
  have fk: "filter (\<lambda>e. fst e = key) (snd (classify a b c k d)) =
            (if k = key then snd (classify a b c k d) else [])"
    by (auto simp: classify_calls split: option.splits)
  show ?case
  proof (cases "k = key")
    case True
    then have "map_of bs key = None" using Cons.prems p by (simp add: map_of_eq_None_iff)
    then show ?thesis using Cons p True fk by simp
  next
    case False
    then show ?thesis using Cons p fk by simp
  qed
qed

lemma after_zone_1_then_far:
  "run zone_1_then_far APP_STATE = Inr (after zone_1_then_far)"
  "mode (after zone_1_then_far) = MONITORING"
  "perimeter_rssi_levels (after zone_1_then_far) = [- 75, - 90, - 105]"
  "map (\<lambda>(k, d). (k, readings d, last_seen d, status d)) (detected_beacons (after zone_1_then_far))
     = [(''AA'', [- 70, - 150], Some 12, ZONA_1)]"
  "sink_calls (after zone_1_then_far) = []"
  "eventos (after zone_1_then_far) = []"
  "db_accepts (after zone_1_then_far) (''AA'', ZONA_1, FUERA)"
  by (simp_all add: after_def zone_1_then_far_def calibrated_at_70_def eval_defs)

text \<open>
  C1, as the program has it. In a state the program can reach, in monitoring mode with
  thresholds stored, take a tracked beacon, the zone \<open>new_zone\<close> of the mean of its window
  and the list \<open>calls\<close>: the one call of \<^verbatim>\<open>log_zone_change_event\<close> for this beacon when
  \<open>new_zone\<close> differs from the stored zone and one of the two is \<^verbatim>\<open>FUERA\<close>, and no call
  otherwise, that is none when the zone is unchanged and none for a change between any two
  of \<^verbatim>\<open>NUEVO\<close>, \<^verbatim>\<open>CALIBRANDO\<close>, \<^verbatim>\<open>ZONA 1\<close>, \<^verbatim>\<open>ZONA 2\<close>, \<^verbatim>\<open>ZONA 3\<close>. The polling pass keeps
  the earlier calls and the earlier rows of the table. A beacon that is timed out is
  removed, without a call or a row. Any other beacon gets the zone \<open>new_zone\<close>, the pass
  makes exactly the calls \<open>calls\<close> for it, and the table receives the row of such a call
  when the database accepts the insert and nothing when it fails.
\<close>

theorem transition_events:
  assumes "run acts APP_STATE = Inr s"
    and "mode s = MONITORING"
    and "perimeter_rssi_levels s = [inner, mid, outer]"
    and "map_of (detected_beacons s) key = Some d"
    and "new_zone = zone_of inner mid outer (mean (readings d))"
    and "calls = (if new_zone \<noteq> status d \<and> (new_zone = FUERA \<or> status d = FUERA)
                  then [(key, status d, new_zone)] else [])"
  shows "\<exists>s'. ui_update_tick now s = Inr s' \<and>
           take (length (sink_calls s)) (sink_calls s') = sink_calls s \<and>
           take (length (eventos s)) (eventos s') = eventos s \<and>
           (if timed_out now d
            then map_of (detected_beacons s') key = None \<and>
                 filter (\<lambda>e. fst e = key) (drop (length (sink_calls s)) (sink_calls s')) = [] \<and>
                 filter (\<lambda>e. fst e = key) (drop (length (eventos s)) (eventos s')) = []
            else (\<exists>d'. map_of (detected_beacons s') key = Some d' \<and> status d' = new_zone) \<and>
                 filter (\<lambda>e. fst e = key) (drop (length (sink_calls s)) (sink_calls s')) = calls \<and>
                 filter (\<lambda>e. fst e = key) (drop (length (eventos s)) (eventos s')) =
                   filter (db_accepts s) calls)"
proof -
  have ok: "state_ok s" using assms(1) by (rule run_ok)
  then have dist: "distinct (map fst (detected_beacons s))" and dok: "beacon_ok d"
    using assms(4) by (auto simp: state_ok_def)
  let ?s1 = "s\<lparr>detected_beacons := sweep_and_average now (detected_beacons s)\<rparr>"
  let ?s' = "monitor inner mid outer ?s1"
  let ?all = "concat (map (\<lambda>(k, d). snd (classify inner mid outer k d)) (detected_beacons ?s1))"
  have tick: "ui_update_tick now s = Inr ?s'"
    using ok assms(2,3) by (rule tick_monitoring)
  have d1: "distinct (map fst (detected_beacons ?s1))" using dist by (simp add: distinct_sweep)
  have sc: "sink_calls ?s' = sink_calls s @ ?all"
    and ev: "eventos ?s' = eventos s @ filter (db_accepts s) ?all"
    by (simp_all add: monitor_def Let_def foldl_log_zone_change_event)
  have fl: "filter (\<lambda>e. fst e = key) ?all =
      (case map_of (detected_beacons ?s1) key of None \<Rightarrow> []
       | Some d1 \<Rightarrow> snd (classify inner mid outer key d1))"
    using calls_of_key [OF d1] by simp
  have fe: "filter (\<lambda>e. fst e = key) (filter (db_accepts s) ?all) =
      filter (db_accepts s) (filter (\<lambda>e. fst e = key) ?all)"
    by (simp add: conj_commute)
  show ?thesis
  proof (cases "timed_out now d")
    case True
    then have l1: "map_of (detected_beacons ?s1) key = None"
      using dist assms(4) by (simp add: map_of_sweep)
    then have "map_of (detected_beacons ?s') key = None"
      by (simp add: monitor_def Let_def map_of_map_entries)
    then show ?thesis using tick sc ev fl fe l1 True by simp
  next
    case False
    then have l1: "map_of (detected_beacons ?s1) key = Some (refresh_avg d)"
      using dist assms(4) by (simp add: map_of_sweep)
    have avg: "avg_rssi (refresh_avg d) = Some (mean (readings d))"
      "status (refresh_avg d) = status d"
      using dok by (simp_all add: refresh_avg_def beacon_ok_def)
    let ?d' = "fst (classify inner mid outer key (refresh_avg d))"
    have l2: "map_of (detected_beacons ?s') key = Some ?d'"
      using l1 by (simp add: monitor_def Let_def map_of_map_entries)
    have st: "status ?d' = new_zone"
      using avg assms(5) by (auto simp: classify_def Let_def)
    have cl: "snd (classify inner mid outer key (refresh_avg d)) = calls"
      using avg assms(5,6) by (simp add: classify_calls)
    show ?thesis using tick sc ev fl fe l1 l2 st cl False by simp
  qed
qed

theorem transition_events_witness:
  "\<exists>s' d'. ui_update_tick 13 (after zone_1_then_far) = Inr s' \<and>
           map_of (detected_beacons s') ''AA'' = Some d' \<and> status d' = FUERA \<and>
           filter (\<lambda>e. fst e = ''AA'') (sink_calls s') = [(''AA'', ZONA_1, FUERA)] \<and>
           filter (\<lambda>e. fst e = ''AA'') (eventos s') = [(''AA'', ZONA_1, FUERA)]"
proof -
  obtain d where d: "map_of (detected_beacons (after zone_1_then_far)) ''AA'' = Some d"
    "readings d = [- 70, - 150]" "last_seen d = Some 12" "status d = ZONA_1"
    using after_zone_1_then_far(4) by (cases "detected_beacons (after zone_1_then_far)") auto
  have live: "\<not> timed_out 13 d" using d(3) by (simp add: timed_out_def BEACON_TIMEOUT_def)
  have z: "FUERA = zone_of (- 75) (- 90) (- 105) (mean (readings d))"
    using d(2) by (simp add: zone_of_def fl_defs)
  have c: "[(''AA'', ZONA_1, FUERA)] =
     (if FUERA \<noteq> status d \<and> (FUERA = FUERA \<or> status d = FUERA)
      then [(''AA'', status d, FUERA)] else [])"
    using d(4) by simp
  show ?thesis
    using transition_events [OF after_zone_1_then_far(1,2,3) d(1) z c, of 13] live
      after_zone_1_then_far(5,6,7)
    by auto
qed

text \<open>
  C1 as written, one message for every change of zone, fails: a beacon that moves from
  zone 1 to zone 2 changes its stored zone, and \<^verbatim>\<open>log_zone_change_event\<close> is not called
  and no row is written (line 224 calls it only when the old or the new zone is
  \<^verbatim>\<open>FUERA\<close>).
\<close>

theorem transition_events_counterexample:
  "run (zone_1_then_zone_2 @ [Tick 13]) APP_STATE = Inr (after (zone_1_then_zone_2 @ [Tick 13])) \<and>
   mode (after zone_1_then_zone_2) = MONITORING \<and>
   perimeter_rssi_levels (after zone_1_then_zone_2) = [- 75, - 90, - 105] \<and>
   map (status \<circ> snd) (detected_beacons (after zone_1_then_zone_2)) = [ZONA_1] \<and>
   map (status \<circ> snd) (detected_beacons (after (zone_1_then_zone_2 @ [Tick 13]))) = [ZONA_2] \<and>
   sink_calls (after (zone_1_then_zone_2 @ [Tick 13])) = sink_calls (after zone_1_then_zone_2) \<and>
   eventos (after (zone_1_then_zone_2 @ [Tick 13])) = eventos (after zone_1_then_zone_2)"
  by (simp add: after_def zone_1_then_zone_2_def calibrated_at_70_def eval_defs)
section \<open>Eviction\<close>

lemma tick_keys:
  "ui_update_tick now s = Inr s' \<Longrightarrow>
   map fst (detected_beacons s') = map fst (sweep_and_average now (detected_beacons s))"
  by (auto simp: ui_update_tick_def finish_calibration_def monitor_def Let_def comp_def
        case_prod_beta split: if_splits list.splits)

lemma callback_fresh:
  assumes "map_of (detected_beacons s) (address adv) = None"
    and "manufacturer_data adv 0x004c = Some beacon_data"
    and "take 2 beacon_data = [0x02, 0x15]"
  shows "map_of (detected_beacons (detection_callback now adv s)) (address adv) =
           Some ((new_beacon beacon_data adv)\<lparr>readings := [rssi adv], last_seen := Some now\<rparr>)"
  using assms
  by (simp add: detection_callback_def Let_def map_of_map_entry update_conv' new_beacon_def
        deque_append_def RSSI_SAMPLES_COUNT_def)

lemma after_seen_while_calibrating:
  "run seen_while_calibrating APP_STATE = Inr (after seen_while_calibrating)"
  "mode (after seen_while_calibrating) = CALIBRATING"
  "map (\<lambda>(k, d). (k, readings d, last_seen d, status d))
       (detected_beacons (after seen_while_calibrating)) = [(''AA'', [- 70], Some 1, NUEVO)]"
  by (simp_all add: after_def seen_while_calibrating_def eval_defs)

text \<open>
  C8. In a state the program can reach, whatever its mode, a polling pass at a time
  \<open>now\<close> with \<open>now - last_seen > BEACON_TIMEOUT\<close> for a tracked beacon removes that beacon
  from the registry. A later iBeacon advertisement from the same address then creates a
  record built from that advertisement alone: its window holds the one new reading, its
  baseline \<^verbatim>\<open>home_rssi\<close> is undefined and its zone is \<^verbatim>\<open>NUEVO\<close>.
\<close>

theorem eviction:
  assumes "run acts APP_STATE = Inr s"
    and "map_of (detected_beacons s) key = Some d"
    and "last_seen d = Some t"
    and "now - t > BEACON_TIMEOUT"
    and "address adv = key"
    and "manufacturer_data adv 0x004c = Some beacon_data"
    and "take 2 beacon_data = [0x02, 0x15]"
  shows "\<exists>s' d'. ui_update_tick now s = Inr s' \<and>
           map_of (detected_beacons s') key = None \<and>
           map_of (detected_beacons (detection_callback later adv s')) key = Some d' \<and>
           d' = (new_beacon beacon_data adv)\<lparr>readings := [rssi adv], last_seen := Some later\<rparr> \<and>
           home_rssi d' = None \<and> status d' = NUEVO \<and> avg_rssi d' = Some (- 100)"
proof -
  have ok: "state_ok s" using assms(1) by (rule run_ok)
  then have dist: "distinct (map fst (detected_beacons s))" by (simp add: state_ok_def)
  from state_ok_tick [OF ok, of now] obtain s' where tick: "ui_update_tick now s = Inr s'"
    by blast
  have "timed_out now d" using assms(3,4) by (simp add: timed_out_def)
  then have "map_of (sweep_and_average now (detected_beacons s)) key = None"
    using dist assms(2) by (simp add: map_of_sweep)
  then have gone: "map_of (detected_beacons s') key = None"
    using tick_keys [OF tick] by (simp add: map_of_eq_None_iff) (metis set_map)
  from callback_fresh [of s' adv beacon_data later] gone assms(5,6,7)
  have "map_of (detected_beacons (detection_callback later adv s')) key =
          Some ((new_beacon beacon_data adv)\<lparr>readings := [rssi adv], last_seen := Some later\<rparr>)"
    by simp
  then show ?thesis using tick gone by (simp add: new_beacon_def)
qed

theorem eviction_witness:
  "\<exists>s' d'. ui_update_tick 20 (after seen_while_calibrating) = Inr s' \<and>
      map_of (detected_beacons s') ''AA'' = None \<and>
      map_of (detected_beacons (detection_callback 21 (sample_advert ''AA'' (- 60)) s')) ''AA''
        = Some d' \<and>
      readings d' = [- 60] \<and> last_seen d' = Some 21 \<and> home_rssi d' = None \<and> status d' = NUEVO"
proof -
  obtain d where d: "map_of (detected_beacons (after seen_while_calibrating)) ''AA'' = Some d"
    "last_seen d = Some 1"
    using after_seen_while_calibrating(3)
    by (cases "detected_beacons (after seen_while_calibrating)") auto
  have late: "20 - 1 > BEACON_TIMEOUT" by (simp add: BEACON_TIMEOUT_def)
  have a: "address (sample_advert ''AA'' (- 60)) = ''AA''"
    "manufacturer_data (sample_advert ''AA'' (- 60)) 0x004c = Some sample_payload"
    "take 2 sample_payload = [0x02, 0x15]"
    by (simp_all add: sample_advert_def sample_payload_def)
  show ?thesis
    using eviction [OF after_seen_while_calibrating(1) d late a, of 21]
    by (auto simp: sample_advert_def)
qed
section \<open>Starting a calibration\<close>

text \<open>
  C7. In every state the program can reach in which a calibration is running, the
  calibration button is disabled, so a click on it does not reach the handler and changes
  nothing: the state after the click is the state before it, with the same end time, the
  same beacons with their baselines and zones, and the same thresholds.
\<close>

theorem start_rejected_while_calibrating:
  assumes "run acts APP_STATE = Inr s"
    and "mode s = CALIBRATING"
  shows "calibrate_button_disabled s \<and>
         step (Click now) s = Inr s \<and>
         calibrate_button_click now s = s \<and>
         calibration_end_time (calibrate_button_click now s) = calibration_end_time s \<and>
         detected_beacons (calibrate_button_click now s) = detected_beacons s \<and>
         perimeter_rssi_levels (calibrate_button_click now s) = perimeter_rssi_levels s"
proof -
  have "state_ok s" using assms(1) by (rule run_ok)
  then have "calibrate_button_disabled s" using assms(2) by (simp add: state_ok_def)
  then show ?thesis by (simp add: calibrate_button_click_def)
qed

theorem start_rejected_while_calibrating_witness:
  "calibrate_button_disabled (after seen_while_calibrating) \<and>
   calibrate_button_click 5 (after seen_while_calibrating) = after seen_while_calibrating \<and>
   calibration_end_time (calibrate_button_click 5 (after seen_while_calibrating)) = 10"
proof -
  have e: "calibration_end_time (after seen_while_calibrating) = 10"
    by (simp add: after_def seen_while_calibrating_def eval_defs)
  show ?thesis
    using start_rejected_while_calibrating [OF after_seen_while_calibrating(1,2), of 5] e
    by simp
qed
section \<open>Decoding of advertisements\<close>

lemmas eval_defs2 = detection_callback2_def sample_advert_def sample_payload_def new_beacon2_def
  deque_append_def RSSI_SAMPLES_COUNT2_def update_trend2_def TREND_THRESHOLD2_def
  BEACON_TIMEOUT2_def from_bytes_big_def Let_def fl_defs

lemma callback2_fresh:
  assumes "map_of bs (address adv) = None"
    and "manufacturer_data adv 0x004c = Some beacon_data"
    and "take 2 beacon_data = [0x02, 0x15]"
  shows "map_of (detection_callback2 now adv bs) (address adv) =
           Some ((new_beacon2 beacon_data)\<lparr>readings2 := [rssi adv], last_seen2 := Some now\<rparr>)"
  using assms
  by (simp add: detection_callback2_def Let_def map_of_map_entry update_conv' new_beacon2_def
        deque_append_def RSSI_SAMPLES_COUNT2_def)

lemma callback_tracked:
  assumes "manufacturer_data adv 0x004c = Some beacon_data"
    and "take 2 beacon_data = [0x02, 0x15]"
  shows "\<exists>d. map_of (detected_beacons (detection_callback now adv s)) (address adv) = Some d \<and>
             last_seen d = Some now"
  using assms
  by (auto simp: detection_callback_def Let_def map_of_map_entry update_conv'
       split: option.splits)

lemma callback2_tracked:
  assumes "manufacturer_data adv 0x004c = Some beacon_data"
    and "take 2 beacon_data = [0x02, 0x15]"
  shows "\<exists>d. map_of (detection_callback2 now adv bs) (address adv) = Some d \<and>
             last_seen2 d = Some now"
  using assms
  by (auto simp: detection_callback2_def Let_def map_of_map_entry update_conv'
       split: option.splits)

text \<open>
  C6, as the program has it. The callbacks of both scripts are total functions: the
  subscript \<^verbatim>\<open>manufacturer_data[0x004c]\<close> is guarded by the membership test, a slice of a
  short byte string is a shorter byte string and \<^verbatim>\<open>int.from_bytes\<close> of the empty one is 0,
  so no input makes them raise. Without the company id \<open>0x004c\<close>, or with a payload whose
  first two bytes are not \<open>02 15\<close>, which includes every payload of fewer than two bytes,
  the callback leaves the state as it is. With the company id and the marker the address
  is tracked afterwards, whatever the length of the payload: on first sight the record is
  built from the bytes that are there.
\<close>

theorem decoding:
  "(manufacturer_data adv 0x004c = None \<longrightarrow>
      detection_callback now adv s = s \<and> detection_callback2 now adv bs = bs) \<and>
   (\<forall>beacon_data. manufacturer_data adv 0x004c = Some beacon_data \<longrightarrow>
      (take 2 beacon_data \<noteq> [0x02, 0x15] \<longrightarrow>
         detection_callback now adv s = s \<and> detection_callback2 now adv bs = bs) \<and>
      (length beacon_data < 2 \<longrightarrow> take 2 beacon_data \<noteq> [0x02, 0x15]) \<and>
      (take 2 beacon_data = [0x02, 0x15] \<longrightarrow>
         (\<exists>d. map_of (detected_beacons (detection_callback now adv s)) (address adv) = Some d \<and>
              last_seen d = Some now) \<and>
         (\<exists>d. map_of (detection_callback2 now adv bs) (address adv) = Some d \<and>
              last_seen2 d = Some now) \<and>
         (map_of (detected_beacons s) (address adv) = None \<longrightarrow>
            map_of (detected_beacons (detection_callback now adv s)) (address adv) =
              Some ((new_beacon beacon_data adv)
                      \<lparr>readings := [rssi adv], last_seen := Some now\<rparr>)) \<and>
         (map_of bs (address adv) = None \<longrightarrow>
            map_of (detection_callback2 now adv bs) (address adv) =
              Some ((new_beacon2 beacon_data)
                      \<lparr>readings2 := [rssi adv], last_seen2 := Some now\<rparr>))))"
proof -
  have none: "manufacturer_data adv 0x004c = None \<Longrightarrow>
      detection_callback now adv s = s \<and> detection_callback2 now adv bs = bs"
    by (simp add: detection_callback_def detection_callback2_def)
  have mism: "\<And>bd. manufacturer_data adv 0x004c = Some bd \<Longrightarrow> take 2 bd \<noteq> [0x02, 0x15] \<Longrightarrow>
      detection_callback now adv s = s \<and> detection_callback2 now adv bs = bs"
    by (simp add: detection_callback_def detection_callback2_def)
  have short: "\<And>bd :: byte list. length bd < 2 \<Longrightarrow> take 2 bd \<noteq> [0x02, 0x15]"
  proof
    fix bd :: "byte list"
    assume "length bd < 2" and "take 2 bd = [0x02, 0x15]"
    then have "length (take 2 bd) = 2" by simp
    with \<open>length bd < 2\<close> show False by simp
  qed
  show ?thesis
    using none mism short callback_tracked [of adv _ now s] callback2_tracked [of adv _ now bs]
      callback_fresh [of s adv _ now] callback2_fresh [of bs adv _ now]
    by blast
qed

theorem decoding_witness:
  "detection_callback 0 wrong_marker_advert APP_STATE = APP_STATE \<and>
   detection_callback2 0 wrong_marker_advert [] = [] \<and>
   map_of (detection_callback2 0 (sample_advert ''AA'' (- 70)) []) ''AA'' =
     Some \<lparr>uuid2 = replicate 16 0xAB, major2 = 1, minor2 = 2, readings2 = [- 70],
           avg_rssi2 = None, prev_avg_rssi2 = None, trend2 = Calculando, last_seen2 = Some 0\<rparr>"
proof -
  have w: "manufacturer_data wrong_marker_advert 0x004c = Some [0x10, 0x05, 0x01]"
    "take 2 [0x10, 0x05, 0x01 :: byte] \<noteq> [0x02, 0x15]"
    by (simp_all add: wrong_marker_advert_def)
  have g: "manufacturer_data (sample_advert ''AA'' (- 70)) 0x004c = Some sample_payload"
    "take 2 sample_payload = [0x02, 0x15]"
    "map_of ([] :: (string \<times> beacon2) list) (address (sample_advert ''AA'' (- 70))) = None"
    "address (sample_advert ''AA'' (- 70)) = ''AA''" "rssi (sample_advert ''AA'' (- 70)) = - 70"
    by (simp_all add: sample_advert_def sample_payload_def)
  have n: "new_beacon2 sample_payload =
     \<lparr>uuid2 = replicate 16 0xAB, major2 = 1, minor2 = 2, readings2 = [],
           avg_rssi2 = None, prev_avg_rssi2 = None, trend2 = Calculando, last_seen2 = None\<rparr>"
    by (simp add: new_beacon2_def sample_payload_def from_bytes_big_def)
  show ?thesis
    using decoding [of wrong_marker_advert 0 APP_STATE "[]"] w
      decoding [of "sample_advert ''AA'' (- 70)" 0 APP_STATE "[]"] g n
    by simp
qed

text \<open>
  C6 as written, a payload that is too short yields no match, fails: a payload that holds
  the two marker bytes and nothing else is accepted by both callbacks, with an empty UUID
  and major and minor 0.
\<close>

theorem decoding_counterexample:
  "detection_callback2 0 truncated_advert [] =
     [(''AA'', \<lparr>uuid2 = [], major2 = 0, minor2 = 0, readings2 = [- 70],
               avg_rssi2 = None, prev_avg_rssi2 = None, trend2 = Calculando,
               last_seen2 = Some 0\<rparr>)] \<and>
   map fst (detected_beacons (detection_callback 0 truncated_advert APP_STATE)) = [''AA'']"
  by (simp add: truncated_advert_def eval_defs eval_defs2)
section \<open>Averages and trend in \<^verbatim>\<open>beacon2.py\<close>\<close>

lemma run_after: "run acts APP_STATE = Inr (after acts)"
  using state_ok_run [OF state_ok_init, of acts] by (auto simp: after_def)


lemma tick2_beacon:
  assumes "run2 acts [] = Inr bs"
  shows "\<exists>bs'. main_tick2 now bs = Inr bs' \<and>
           (\<forall>key. map_of bs' key =
              (case map_of bs key of None \<Rightarrow> None
               | Some d \<Rightarrow> if stale2 now d then None else Some (update_trend2 d)))"
proof -
  have ok: "state2_ok bs" using assms by (rule run2_ok)
  from state2_ok_tick [OF ok, of now] obtain bs' where t: "main_tick2 now bs = Inr bs'"
    by blast
  with map_of_tick2 [OF ok t] show ?thesis by blast
qed

lemma run2_beacon_ok:
  "run2 acts [] = Inr bs \<Longrightarrow> map_of bs key = Some d \<Longrightarrow> beacon2_ok d"
  using run2_ok [of acts bs] by (simp add: state2_ok_def)

lemma update_trend2_result:
  assumes "beacon2_ok d"
  shows "readings2 (update_trend2 d) = readings2 d"
    and "avg_rssi2 (update_trend2 d) = Some (mean (readings2 d))"
    and "prev_avg_rssi2 (update_trend2 d) = avg_rssi2 d"
    and "case avg_rssi2 d of
           None \<Rightarrow> trend2 (update_trend2 d) = Calculando
         | Some prev \<Rightarrow>
             trend2 (update_trend2 d) =
               (if py_sub (mean (readings2 d)) prev > 1.5 then Acercandose
                else if py_sub (mean (readings2 d)) prev < - 1.5 then Alejandose
                else Estable)"
  using assms
  by (auto simp: beacon2_ok_def update_trend2_def Let_def TREND_THRESHOLD2_def
        split: option.splits)

lemma after2_examples:
  "after2 (two_averages (- 60) (- 40)) =
      [(''AA'', \<lparr>uuid2 = replicate 16 0xAB, major2 = 1, minor2 = 2, readings2 = [- 60, - 40],
           avg_rssi2 = Some (- 50), prev_avg_rssi2 = Some (- 60), trend2 = Acercandose,
           last_seen2 = Some 2\<rparr>)]"
  "after2 (two_averages (- 50) (- 70)) =
      [(''AA'', \<lparr>uuid2 = replicate 16 0xAB, major2 = 1, minor2 = 2, readings2 = [- 50, - 70],
           avg_rssi2 = Some (- 60), prev_avg_rssi2 = Some (- 50), trend2 = Alejandose,
           last_seen2 = Some 2\<rparr>)]"
  "after2 (two_averages (- 50) (- 51)) =
      [(''AA'', \<lparr>uuid2 = replicate 16 0xAB, major2 = 1, minor2 = 2, readings2 = [- 50, - 51],
           avg_rssi2 = Some (- 101 / 2), prev_avg_rssi2 = Some (- 50), trend2 = Estable,
           last_seen2 = Some 2\<rparr>)]"
  "after2 one_average =
      [(''AA'', \<lparr>uuid2 = replicate 16 0xAB, major2 = 1, minor2 = 2, readings2 = [- 60],
           avg_rssi2 = Some (- 60), prev_avg_rssi2 = None, trend2 = Calculando,
           last_seen2 = Some 0\<rparr>)]"
  by (simp_all add: after2_def two_averages_def one_average_def eval_defs2)

lemma run2_approaching:
  "run2 (two_averages (- 60) (- 40)) [] = Inr (after2 (two_averages (- 60) (- 40)))"
  by (simp add: after2_def two_averages_def eval_defs2)

text \<open>
  C9. In a state \<^verbatim>\<open>beacon2.py\<close> can reach, a pass of the loop leaves every beacon it still
  tracks with the mean of its window as \<^verbatim>\<open>avg_rssi\<close> and with the average it had before
  the pass as \<^verbatim>\<open>prev_avg_rssi\<close>. When that previous average is defined the trend is
  approaching if \<open>delta = avg_rssi - prev_avg_rssi\<close>, as the program computes it, is above
  1.5, receding if it is below \<open>-1.5\<close> and stable otherwise; when it is not, the beacon has
  a single average and its trend is still the initial \<^verbatim>\<open>Calculando...\<close>. The averages
  \<open>-60, -50\<close> give approaching, \<open>-50, -60\<close> receding, \<open>-50, -50.5\<close> stable, and a single
  average \<open>-60\<close> leaves the trend unknown.
\<close>

theorem trend_update:
  assumes "run2 acts [] = Inr bs"
  shows "(\<exists>bs'. main_tick2 now bs = Inr bs' \<and>
           (\<forall>key d'. map_of bs' key = Some d' \<longrightarrow>
              (\<exists>d avg. map_of bs key = Some d \<and> prev_avg_rssi2 d' = avg_rssi2 d \<and>
                 avg = mean (readings2 d') \<and> avg_rssi2 d' = Some avg \<and>
                 (case prev_avg_rssi2 d' of
                    None \<Rightarrow> trend2 d' = Calculando
                  | Some prev \<Rightarrow>
                      trend2 d' = (if py_sub avg prev > 1.5 then Acercandose
                                   else if py_sub avg prev < - 1.5 then Alejandose
                                   else Estable))))) \<and>
         map (avg_rssi2 \<circ> snd) (after2 (two_averages (- 60) (- 40))) = [Some (- 50)] \<and>
         map (prev_avg_rssi2 \<circ> snd) (after2 (two_averages (- 60) (- 40))) = [Some (- 60)] \<and>
         map (trend2 \<circ> snd) (after2 (two_averages (- 60) (- 40))) = [Acercandose] \<and>
         map (avg_rssi2 \<circ> snd) (after2 (two_averages (- 50) (- 70))) = [Some (- 60)] \<and>
         map (prev_avg_rssi2 \<circ> snd) (after2 (two_averages (- 50) (- 70))) = [Some (- 50)] \<and>
         map (trend2 \<circ> snd) (after2 (two_averages (- 50) (- 70))) = [Alejandose] \<and>
         map (avg_rssi2 \<circ> snd) (after2 (two_averages (- 50) (- 51))) = [Some (- 50.5)] \<and>
         map (prev_avg_rssi2 \<circ> snd) (after2 (two_averages (- 50) (- 51))) = [Some (- 50)] \<and>
         map (trend2 \<circ> snd) (after2 (two_averages (- 50) (- 51))) = [Estable] \<and>
         map (avg_rssi2 \<circ> snd) (after2 one_average) = [Some (- 60)] \<and>
         map (prev_avg_rssi2 \<circ> snd) (after2 one_average) = [None] \<and>
         map (trend2 \<circ> snd) (after2 one_average) = [Calculando]"
proof -
  from tick2_beacon [OF assms, of now] obtain bs' where
    t: "main_tick2 now bs = Inr bs'"
       "\<And>key. map_of bs' key =
              (case map_of bs key of None \<Rightarrow> None
               | Some d \<Rightarrow> if stale2 now d then None else Some (update_trend2 d))"
    by blast
  have each: "\<exists>d avg. map_of bs key = Some d \<and> prev_avg_rssi2 d' = avg_rssi2 d \<and>
                 avg = mean (readings2 d') \<and> avg_rssi2 d' = Some avg \<and>
                 (case prev_avg_rssi2 d' of
                    None \<Rightarrow> trend2 d' = Calculando
                  | Some prev \<Rightarrow>
                      trend2 d' = (if py_sub avg prev > 1.5 then Acercandose
                                   else if py_sub avg prev < - 1.5 then Alejandose
                                   else Estable))"
    if "map_of bs' key = Some d'" for key d'
  proof -
    from that t(2) [of key] obtain d where d: "map_of bs key = Some d" "d' = update_trend2 d"
      by (auto split: option.splits if_splits)
    have dok: "beacon2_ok d" using assms d(1) by (rule run2_beacon_ok)
    from update_trend2_result [OF dok] d show ?thesis by (auto split: option.splits)
  qed
  have general: "\<exists>bs'. main_tick2 now bs = Inr bs' \<and>
           (\<forall>key d'. map_of bs' key = Some d' \<longrightarrow>
              (\<exists>d avg. map_of bs key = Some d \<and> prev_avg_rssi2 d' = avg_rssi2 d \<and>
                 avg = mean (readings2 d') \<and> avg_rssi2 d' = Some avg \<and>
                 (case prev_avg_rssi2 d' of
                    None \<Rightarrow> trend2 d' = Calculando
                  | Some prev \<Rightarrow>
                      trend2 d' = (if py_sub avg prev > 1.5 then Acercandose
                                   else if py_sub avg prev < - 1.5 then Alejandose
                                   else Estable))))"
    using t(1) each by blast
  show ?thesis
    using general unfolding after2_examples by simp
qed

theorem trend_update_witness:
  "\<exists>bs' d'. main_tick2 4 (after2 (two_averages (- 60) (- 40))) = Inr bs' \<and>
      map_of bs' ''AA'' = Some d' \<and> avg_rssi2 d' = Some (- 50) \<and>
      prev_avg_rssi2 d' = Some (- 50) \<and> trend2 d' = Estable"
proof -
  have t4: "main_tick2 4 (after2 (two_averages (- 60) (- 40))) = Inr bs' \<Longrightarrow>
      map (\<lambda>(k, d). (k, readings2 d)) bs' = [(''AA'', [- 60, - 40])]" for bs'
    unfolding after2_examples by (auto simp: BEACON_TIMEOUT2_def update_trend2_def Let_def)
  from trend_update [OF run2_approaching, of 4]
  obtain bs' where bs': "main_tick2 4 (after2 (two_averages (- 60) (- 40))) = Inr bs'"
    "\<forall>key d'. map_of bs' key = Some d' \<longrightarrow>
              (\<exists>d avg. map_of (after2 (two_averages (- 60) (- 40))) key = Some d \<and>
                 prev_avg_rssi2 d' = avg_rssi2 d \<and>
                 avg = mean (readings2 d') \<and> avg_rssi2 d' = Some avg \<and>
                 (case prev_avg_rssi2 d' of
                    None \<Rightarrow> trend2 d' = Calculando
                  | Some prev \<Rightarrow>
                      trend2 d' = (if py_sub avg prev > 1.5 then Acercandose
                                   else if py_sub avg prev < - 1.5 then Alejandose
                                   else Estable)))"
    by blast
  from t4 [OF bs'(1)] obtain d' where d': "map_of bs' ''AA'' = Some d'"
    "readings2 d' = [- 60, - 40]"
    by (cases bs') auto
  have m: "mean [- 60, - 40] = - 50" "py_sub (- 50) (- 50) = 0" by (simp_all add: fl_defs)
  from bs'(2) d' m have "avg_rssi2 d' = Some (- 50) \<and> prev_avg_rssi2 d' = Some (- 50) \<and>
      trend2 d' = Estable"
    unfolding after2_examples by fastforce
  with bs'(1) d'(1) show ?thesis by blast
qed

text \<open>
  C10, as the program has it. In a state \<^verbatim>\<open>beacon2.py\<close> can reach, a pass of the loop
  removes a tracked beacon that has been silent for more than the time-out. Any other
  beacon keeps its window and gets the mean of that window as average; if the average
  already was the mean of the window, as it is when the window has not changed since the
  previous pass, the average stays the same and the trend becomes stable. The trend is
  approaching or receding after a pass only if the pass changed the average.
\<close>

theorem steady_window:
  assumes "run2 acts [] = Inr bs"
    and "map_of bs key = Some d"
    and "last_seen2 d = Some t"
  shows "\<exists>bs'. main_tick2 now bs = Inr bs' \<and>
           (if now - t > BEACON_TIMEOUT2 then map_of bs' key = None
            else \<exists>d'. map_of bs' key = Some d' \<and>
                   readings2 d' = readings2 d \<and>
                   avg_rssi2 d' = Some (mean (readings2 d')) \<and>
                   (avg_rssi2 d = Some (mean (readings2 d)) \<longrightarrow>
                      avg_rssi2 d' = avg_rssi2 d \<and> trend2 d' = Estable) \<and>
                   (trend2 d' = Acercandose \<or> trend2 d' = Alejandose \<longrightarrow>
                      avg_rssi2 d' \<noteq> avg_rssi2 d))"
proof -
  have dok: "beacon2_ok d" using assms(1,2) by (rule run2_beacon_ok)
  from tick2_beacon [OF assms(1), of now] obtain bs' where
    t: "main_tick2 now bs = Inr bs'"
       "map_of bs' key = (if stale2 now d then None else Some (update_trend2 d))"
    using assms(2) by fastforce
  have st: "stale2 now d \<longleftrightarrow> now - t > BEACON_TIMEOUT2"
    using assms(3) by (simp add: stale2_def)
  note u = update_trend2_result [OF dok]
  have same: "avg_rssi2 d = Some (mean (readings2 d)) \<Longrightarrow> trend2 (update_trend2 d) = Estable"
    using u(4) by (simp add: py_sub_def fl_zero)
  have moved: "trend2 (update_trend2 d) = Acercandose \<or> trend2 (update_trend2 d) = Alejandose
      \<Longrightarrow> avg_rssi2 (update_trend2 d) \<noteq> avg_rssi2 d"
    using u(2,4) by (auto simp: py_sub_def fl_zero split: option.splits if_splits)
  show ?thesis
    using t st u(1,2) same moved by auto
qed

theorem steady_window_witness:
  "\<exists>bs' d'. main_tick2 4 (after2 (two_averages (- 60) (- 40))) = Inr bs' \<and>
      map_of bs' ''AA'' = Some d' \<and> readings2 d' = [- 60, - 40] \<and>
      avg_rssi2 d' = Some (- 50) \<and> trend2 d' = Estable"
proof -
  let ?d = "\<lparr>uuid2 = replicate 16 0xAB, major2 = 1, minor2 = 2, readings2 = [- 60, - 40],
           avg_rssi2 = Some (- 50), prev_avg_rssi2 = Some (- 60), trend2 = Acercandose,
           last_seen2 = Some 2\<rparr>"
  have l: "map_of (after2 (two_averages (- 60) (- 40))) ''AA'' = Some ?d"
    by (simp add: after2_examples(1))
  have s: "last_seen2 ?d = Some 2" by simp
  have live: "\<not> (4 - 2 > BEACON_TIMEOUT2)" by (simp add: BEACON_TIMEOUT2_def)
  have m: "mean [- 60, - 40] = - 50" by (simp add: fl_defs)
  show ?thesis
    using steady_window [OF run2_approaching l s, of 4] live m by auto
qed

text \<open>
  C10 as written, every pass over an unchanged window leaves the average and sets the
  trend to stable, fails: a beacon with both averages defined that receives no reading for
  more than ten seconds is deleted by the next pass.
\<close>

theorem steady_window_counterexample:
  "run2 (two_averages (- 60) (- 40)) [] = Inr (after2 (two_averages (- 60) (- 40))) \<and>
   map (readings2 \<circ> snd) (after2 (two_averages (- 60) (- 40))) = [[- 60, - 40]] \<and>
   map (avg_rssi2 \<circ> snd) (after2 (two_averages (- 60) (- 40))) = [Some (- 50)] \<and>
   map (prev_avg_rssi2 \<circ> snd) (after2 (two_averages (- 60) (- 40))) = [Some (- 60)] \<and>
   main_tick2 13 (after2 (two_averages (- 60) (- 40))) = Inr []"
  unfolding after2_examples
  by (simp add: run2_approaching [unfolded after2_examples] BEACON_TIMEOUT2_def)
section \<open>When the average is defined\<close>




end
